theory Spec2Isabelle
  imports Main
begin

section \<open>Python values and exceptions\<close>

text \<open>
  The program is a Python script (\<^verbatim>\<open>submit-request.py\<close>). The values it handles are
  the ones \<^verbatim>\<open>json.loads\<close> produces and \<^verbatim>\<open>json.dumps\<close> consumes, response status
  codes and header values: \<^verbatim>\<open>None\<close>, booleans, integers, strings, lists and
  dictionaries. A dictionary keeps its insertion order and is an association list; its
  keys are strings, as every key of a JSON object is. A Python \<^verbatim>\<open>str\<close> is a
  \<open>string\<close> whose characters are code points below 256. The script never looks at
  the value of a number, only at its type, so \<open>PInt\<close> stands for every JSON number.
\<close>

datatype pyval =
    PNone
  | PBool bool
  | PInt int
  | PStr string
  | PList "pyval list"
  | PDict "(string \<times> pyval) list"

text \<open>The exception classes the script can raise, by class name.\<close>

datatype pyexc =
    TypeError
  | KeyError
  | IndexError
  | JSONDecodeError
  | OSError
  | HTTPException

type_synonym 'a res = "pyexc + 'a"

definition bindE :: "'a res \<Rightarrow> ('a \<Rightarrow> 'b res) \<Rightarrow> 'b res" where
  "bindE m f = (case m of Inl e \<Rightarrow> Inl e | Inr v \<Rightarrow> f v)"

text \<open>\<^verbatim>\<open>s + x\<close> for a string \<open>s\<close>: concatenation when \<open>x\<close> is a string, TypeError otherwise.\<close>

fun str_add :: "string \<Rightarrow> pyval \<Rightarrow> string res" where
  "str_add s (PStr t) = Inr (s @ t)"
| "str_add s _ = Inl TypeError"

text \<open>\<^verbatim>\<open>x[k]\<close> for a string key \<open>k\<close>.\<close>

fun getitem :: "pyval \<Rightarrow> string \<Rightarrow> pyval res" where
  "getitem (PDict kvs) k = (case map_of kvs k of None \<Rightarrow> Inl KeyError | Some v \<Rightarrow> Inr v)"
| "getitem _ k = Inl TypeError"

text \<open>\<^verbatim>\<open>x[0]\<close>. A string yields its first character; a dictionary has no key \<open>0\<close>.\<close>

fun getitem0 :: "pyval \<Rightarrow> pyval res" where
  "getitem0 (PList []) = Inl IndexError"
| "getitem0 (PList (x # xs)) = Inr x"
| "getitem0 (PStr []) = Inl IndexError"
| "getitem0 (PStr (c # cs)) = Inr (PStr [c])"
| "getitem0 (PDict kvs) = Inl KeyError"
| "getitem0 _ = Inl TypeError"

text \<open>\<^verbatim>\<open>k in x\<close> for a string \<open>k\<close>: key of a dictionary, element of a list, substring of a string.\<close>

fun substring :: "string \<Rightarrow> string \<Rightarrow> bool" where
  "substring k [] = (k = [])"
| "substring k (c # cs) = (take (length k) (c # cs) = k \<or> substring k cs)"

fun contains :: "pyval \<Rightarrow> string \<Rightarrow> bool res" where
  "contains (PDict kvs) k = Inr (map_of kvs k \<noteq> None)"
| "contains (PList xs) k = Inr (PStr k \<in> set xs)"
| "contains (PStr s) k = Inr (substring k s)"
| "contains _ k = Inl TypeError"

text \<open>\<^verbatim>\<open>for item in x\<close>: the elements of a list, the keys of a dictionary, the characters of a string.\<close>

fun iterate :: "pyval \<Rightarrow> pyval list res" where
  "iterate (PList xs) = Inr xs"
| "iterate (PDict kvs) = Inr (map (\<lambda>kv. PStr (fst kv)) kvs)"
| "iterate (PStr s) = Inr (map (\<lambda>c. PStr [c]) s)"
| "iterate _ = Inl TypeError"

section \<open>Text: \<^verbatim>\<open>str\<close> of an integer, \<^verbatim>\<open>json.dumps\<close>, UTF-8, base64, \<^verbatim>\<open>str\<close> of bytes\<close>

definition digit_char :: "nat \<Rightarrow> char" where
  "digit_char n = char_of (of_char CHR ''0'' + n)"

fun str_nat :: "nat \<Rightarrow> string" where
  "str_nat n = (if n < 10 then [digit_char n] else str_nat (n div 10) @ [digit_char (n mod 10)])"

definition str_int :: "int \<Rightarrow> string" where
  "str_int i = (if i < 0 then CHR ''-'' # str_nat (nat (- i)) else str_nat (nat i))"

definition hex_char :: "nat \<Rightarrow> char" where
  "hex_char n = (if n < 10 then digit_char n else char_of (of_char CHR ''a'' + (n - 10)))"

abbreviation DQ :: char where "DQ \<equiv> CHR 0x22"
abbreviation SQ :: char where "SQ \<equiv> CHR 0x27"
abbreviation BS :: char where "BS \<equiv> CHR 0x5C"

text \<open>
  \<^verbatim>\<open>json.dumps\<close> with its defaults: \<^verbatim>\<open>ensure_ascii=True\<close>, separators
  \<^verbatim>\<open>", "\<close> and \<^verbatim>\<open>": "\<close>, keys in insertion order.
\<close>

definition json_escape_char :: "char \<Rightarrow> string" where
  "json_escape_char c =
     (if c = DQ then [BS, DQ]
      else if c = BS then [BS, BS]
      else if c = CHR 0x0A then [BS, CHR ''n'']
      else if c = CHR 0x0D then [BS, CHR ''r'']
      else if c = CHR 0x09 then [BS, CHR ''t'']
      else if c = CHR 0x08 then [BS, CHR ''b'']
      else if c = CHR 0x0C then [BS, CHR ''f'']
      else if (0x20::nat) \<le> of_char c \<and> (of_char c :: nat) \<le> 0x7E then [c]
      else [BS, CHR ''u'', CHR ''0'', CHR ''0'',
            hex_char (of_char c div 16), hex_char (of_char c mod 16)])"

definition json_string :: "string \<Rightarrow> string" where
  "json_string s = DQ # concat (map json_escape_char s) @ [DQ]"

fun join :: "string \<Rightarrow> string list \<Rightarrow> string" where
  "join sep [] = []"
| "join sep [x] = x"
| "join sep (x # y # ys) = x @ sep @ join sep (y # ys)"

fun dumps :: "pyval \<Rightarrow> string" where
  "dumps PNone = ''null''"
| "dumps (PBool b) = (if b then ''true'' else ''false'')"
| "dumps (PInt i) = str_int i"
| "dumps (PStr s) = json_string s"
| "dumps (PList xs) = ''['' @ join '', '' (map dumps xs) @ '']''"
| "dumps (PDict kvs) =
     ''{'' @ join '', '' (map (\<lambda>kv. json_string (fst kv) @ '': '' @ dumps (snd kv)) kvs) @ ''}''"


text \<open>\<^verbatim>\<open>bytes(s, 'utf-8')\<close> on code points below 256.\<close>

definition utf8_char :: "char \<Rightarrow> char list" where
  "utf8_char c =
     (if (of_char c :: nat) < 128 then [c]
      else [char_of (192 + (of_char c :: nat) div 64), char_of (128 + (of_char c :: nat) mod 64)])"

definition utf8 :: "string \<Rightarrow> char list" where
  "utf8 s = concat (map utf8_char s)"

text \<open>\<^verbatim>\<open>base64.b64encode\<close>: three bytes become four characters, the tail is padded.\<close>

definition b64_alphabet :: string where
  "b64_alphabet = ''ABCDEFGHIJKLMNOPQRSTUVWXYZabcdefghijklmnopqrstuvwxyz0123456789+/''"

definition b64_char :: "nat \<Rightarrow> char" where
  "b64_char n = b64_alphabet ! (n mod 64)"

fun b64encode :: "char list \<Rightarrow> char list" where
  "b64encode [] = []"
| "b64encode [a] =
     [b64_char (of_char a div 4), b64_char ((of_char a mod 4) * 16), CHR ''='', CHR ''='']"
| "b64encode [a, b] =
     [b64_char (of_char a div 4), b64_char ((of_char a mod 4) * 16 + of_char b div 16),
      b64_char ((of_char b mod 16) * 4), CHR ''='']"
| "b64encode (a # b # c # rest) =
     [b64_char (of_char a div 4), b64_char ((of_char a mod 4) * 16 + of_char b div 16),
      b64_char ((of_char b mod 16) * 4 + of_char c div 64), b64_char (of_char c mod 64)]
     @ b64encode rest"

text \<open>
  \<^verbatim>\<open>str(b)\<close> of a bytes object is its \<^verbatim>\<open>repr\<close>: the letter b, a quote, the bytes
  with the quote, the backslash and the non-printable ones escaped, and the quote again.
  The quote is the double one when the bytes hold a single quote and no double quote.
\<close>

definition bytes_quote :: "char list \<Rightarrow> char" where
  "bytes_quote bs = (if SQ \<in> set bs \<and> DQ \<notin> set bs then DQ else SQ)"

definition bytes_escape :: "char \<Rightarrow> char \<Rightarrow> string" where
  "bytes_escape q c =
     (if c = q \<or> c = BS then [BS, c]
      else if c = CHR 0x09 then [BS, CHR ''t'']
      else if c = CHR 0x0A then [BS, CHR ''n'']
      else if c = CHR 0x0D then [BS, CHR ''r'']
      else if (of_char c :: nat) < 0x20 \<or> 0x7F \<le> (of_char c :: nat)
        then [BS, CHR ''x'', hex_char (of_char c div 16), hex_char (of_char c mod 16)]
      else [c])"

definition str_bytes :: "char list \<Rightarrow> string" where
  "str_bytes bs =
     CHR ''b'' # bytes_quote bs # concat (map (bytes_escape (bytes_quote bs)) bs) @ [bytes_quote bs]"

section \<open>Configuration, requests, responses and the world\<close>

text \<open>The module-level constants of the script (lines 35 to 60), as one record.\<close>

record config =
  mqWebServer :: string
  mqWebServerPort :: int
  transferRequestUrl :: string
  mqWebUserId :: string
  mqWebPassword :: string
  sourceAgentName :: string
  destinationAgentName :: string
  sourceQMName :: string
  destinationQMName :: string
  sourceItemName :: string
  destinationItemName :: string
  sourceItemType :: string
  destinationItemType :: string

definition script_config :: config where
  "script_config =
     \<lparr>mqWebServer = ''localhost'', mqWebServerPort = 8080,
      transferRequestUrl = ''/ibmmq/rest/v2/admin/mft/transfer'',
      mqWebUserId = ''mftuser'', mqWebPassword = ''mftpassw0rd'',
      sourceAgentName = ''SRC'', destinationAgentName = ''DEST'',
      sourceQMName = ''SRCQM'', destinationQMName = ''DESTQM'',
      sourceItemName = ''/usr/srcdir'', destinationItemName = ''/usr/destdir'',
      sourceItemType = ''file'', destinationItemType = ''directory''\<rparr>"

text \<open>What \<^verbatim>\<open>HTTPConnection(host, port).request(method, url, body, headers)\<close> sends.\<close>

record request =
  req_method :: string
  req_host :: string
  req_port :: int
  req_url :: string
  req_body :: string
  req_headers :: "(string \<times> string) list"

text \<open>
  What the script reads of an \<^verbatim>\<open>HTTPResponse\<close>: \<open>status\<close>; \<open>location\<close>, the
  header that \<^verbatim>\<open>getheader("location")\<close> looks up; and \<open>content\<close>, what
  \<^verbatim>\<open>json.loads(response.read(response.length))\<close> evaluates to, a value or an
  exception.
\<close>

record response =
  status :: int
  location :: "string option"
  content :: "pyval res"

definition getheader_location :: "response \<Rightarrow> pyval" where
  "getheader_location r = (case location r of None \<Rightarrow> PNone | Some l \<Rightarrow> PStr l)"

text \<open>
  The server side: the \<open>n\<close>-th request of a run either fails while it is sent
  (\<^verbatim>\<open>request\<close> raises), fails while the answer is read (\<^verbatim>\<open>getresponse\<close> raises),
  or is answered.
\<close>

datatype reply = SendFails pyexc | RecvFails pyexc | Responds response

text \<open>A printed line: a text, or the text of a caught exception (\<^verbatim>\<open>print(e)\<close>).\<close>

datatype printed = Line string | ExcText pyexc

record world =
  transport :: "nat \<Rightarrow> request \<Rightarrow> reply"
  sent :: "request list"
  out :: "printed list"

definition print :: "string \<Rightarrow> world \<Rightarrow> world" where
  "print s w = w\<lparr>out := out w @ [Line s]\<rparr>"

definition print_exc :: "pyexc \<Rightarrow> world \<Rightarrow> world" where
  "print_exc e w = w\<lparr>out := out w @ [ExcText e]\<rparr>"

text \<open>
  \<^verbatim>\<open>HTTPConnection(mqWebServer, mqWebServerPort).request(method, url, body,
  buildHTTPHeaders(userId, password))\<close>, as the value that is sent. It is defined
  after \<open>buildHTTPHeaders\<close> below. One round trip: the request is recorded, the
  transport answers for its position.
\<close>

definition send :: "request \<Rightarrow> world \<Rightarrow> world" where
  "send req w = w\<lparr>sent := sent w @ [req]\<rparr>"

definition answer :: "request \<Rightarrow> world \<Rightarrow> reply" where
  "answer req w = transport w (length (sent w)) req"

section \<open>The script's functions\<close>

text \<open>\<^verbatim>\<open>buildTransferRequest\<close> (lines 63 to 107): the dictionary, then \<^verbatim>\<open>json.dumps\<close>.\<close>

definition transferRequest :: "config \<Rightarrow> pyval" where
  "transferRequest cfg =
     (let sourceAgentAttributes =
            PDict [(''qmgrName'', PStr (sourceQMName cfg)), (''name'', PStr (sourceAgentName cfg))];
          destinationAgentAttributes =
            PDict [(''qmgrName'', PStr (destinationQMName cfg)),
                   (''name'', PStr (destinationAgentName cfg))];
          sourceItem =
            PDict [(''name'', PStr (sourceItemName cfg)), (''type'', PStr (sourceItemType cfg))];
          destinationItem =
            PDict [(''name'', PStr (destinationItemName cfg)),
                   (''type'', PStr (destinationItemType cfg))];
          item = PDict [(''source'', sourceItem), (''destination'', destinationItem)];
          transferSet = PDict [(''item'', PList [item])]
      in PDict [(''sourceAgent'', sourceAgentAttributes),
                (''destinationAgent'', destinationAgentAttributes),
                (''transferSet'', transferSet)])"

definition buildTransferRequest :: "config \<Rightarrow> string" where
  "buildTransferRequest cfg = dumps (transferRequest cfg)"

text \<open>\<^verbatim>\<open>buildHTTPHeaders\<close> (lines 113 to 117).\<close>

definition buildHTTPHeaders :: "string \<Rightarrow> string \<Rightarrow> (string \<times> string) list" where
  "buildHTTPHeaders userId password =
     (let encodedUidPwd = b64encode (utf8 (userId @ '':'' @ password))
      in [(''Content-type'', ''application/json''),
          (''ibm-mq-rest-csrf-token'', []),
          (''Authorization'', ''Basic '' @ str_bytes encodedUidPwd)])"

definition http_request ::
  "config \<Rightarrow> string \<Rightarrow> string \<Rightarrow> string \<Rightarrow> string \<Rightarrow> string \<Rightarrow> request" where
  "http_request cfg meth url body userId password =
     \<lparr>req_method = meth, req_host = mqWebServer cfg, req_port = mqWebServerPort cfg,
      req_url = url, req_body = body, req_headers = buildHTTPHeaders userId password\<rparr>"

text \<open>
  \<^verbatim>\<open>doPostTransfer\<close> (lines 125 to 135). The first line is printed once the request
  is sent, before the response is read; the location header is concatenated to the
  message before it is returned.
\<close>

definition doPostTransfer ::
  "config \<Rightarrow> string \<Rightarrow> string \<Rightarrow> string \<Rightarrow> string \<Rightarrow> world \<Rightarrow> pyval res \<times> world" where
  "doPostTransfer cfg url body userId password w =
     (let req = http_request cfg ''POST'' url body userId password;
          w1 = send req w
      in case answer req w of
           SendFails e \<Rightarrow> (Inl e, w1)
         | RecvFails e \<Rightarrow> (Inl e, print ''Posted transfer request successfully'' w1)
         | Responds response \<Rightarrow>
             (let w2 = print ''Posted transfer request successfully'' w1
              in if status response = 202 then
                   (case str_add ''Transfer requested accepted. Status URL ''
                           (getheader_location response) of
                      Inl e \<Rightarrow> (Inl e, w2)
                    | Inr line \<Rightarrow> (Inr (getheader_location response), print line w2))
                 else
                   (Inr (PInt (status response)),
                    print (''An error occurred while posting transfer request. HTTP response code: ''
                           @ str_int (status response)) w2)))"

text \<open>\<^verbatim>\<open>doGetTransferStatus\<close> (lines 142 to 163), from the inside out.\<close>

definition item_state :: "pyval \<Rightarrow> pyval res" where
  "item_state item = bindE (getitem item ''status'') (\<lambda>s. getitem s ''state'')"

definition item_description :: "pyval \<Rightarrow> pyval res" where
  "item_description item = bindE (getitem item ''status'') (\<lambda>s. getitem s ''description'')"

text \<open>The loop of lines 159 to 161.\<close>

fun reportItems :: "pyval list \<Rightarrow> world \<Rightarrow> unit res \<times> world" where
  "reportItems [] w = (Inr (), w)"
| "reportItems (item # rest) w =
     (case item_state item of
        Inl e \<Rightarrow> (Inl e, w)
      | Inr st \<Rightarrow>
          if st = PStr ''failed'' then
            (case bindE (item_description item) (str_add ''Error: '') of
               Inl e \<Rightarrow> (Inl e, w)
             | Inr line \<Rightarrow> reportItems rest (print line w))
          else reportItems rest w)"

text \<open>\<^verbatim>\<open>transferStatus['transfer'][0]\<close>.\<close>

definition first_transfer :: "pyval \<Rightarrow> pyval res" where
  "first_transfer transferStatus = bindE (getitem transferStatus ''transfer'') getitem0"

text \<open>Lines 153 to 161, on the parsed body.\<close>

definition reportTransfer :: "pyval \<Rightarrow> world \<Rightarrow> unit res \<times> world" where
  "reportTransfer transferStatus w =
     (case bindE (first_transfer transferStatus) (\<lambda>t. getitem t ''id'') of
        Inl e \<Rightarrow> (Inl e, w)
      | Inr transferId \<Rightarrow>
     (case bindE (first_transfer transferStatus) item_state of
        Inl e \<Rightarrow> (Inl e, w)
      | Inr state \<Rightarrow>
     (case bindE (str_add ''Status of transfer request with Id '' transferId)
             (\<lambda>s. str_add (s @ '' is '') state) of
        Inl e \<Rightarrow> (Inl e, w)
      | Inr line \<Rightarrow>
          if state = PStr ''failed'' then
            (case bindE (first_transfer transferStatus) (\<lambda>t. contains t ''transferSet'') of
               Inl e \<Rightarrow> (Inl e, print line w)
             | Inr present \<Rightarrow>
                 if present then
                   (case bindE (first_transfer transferStatus)
                           (\<lambda>t. bindE (getitem t ''transferSet'')
                             (\<lambda>s. bindE (getitem s ''item'') iterate)) of
                      Inl e \<Rightarrow> (Inl e, print line w)
                    | Inr transferSetItems \<Rightarrow> reportItems transferSetItems (print line w))
                 else (Inr (), print line w))
          else (Inr (), print line w))))"

definition doGetTransferStatus ::
  "config \<Rightarrow> string \<Rightarrow> string \<Rightarrow> string \<Rightarrow> world \<Rightarrow> pyval res \<times> world" where
  "doGetTransferStatus cfg url userId password w =
     (let req = http_request cfg ''GET'' url [] userId password;
          w1 = send req w
      in case answer req w of
           SendFails e \<Rightarrow> (Inl e, w1)
         | RecvFails e \<Rightarrow> (Inl e, w1)
         | Responds response \<Rightarrow>
             if status response \<noteq> 200 then
               (case str_add ''Response received for GET request: '' (PInt (status response)) of
                  Inl e \<Rightarrow> (Inl e, w1)
                | Inr line \<Rightarrow> (Inr (PInt (status response)), print line w1))
             else
               (case content response of
                  Inl e \<Rightarrow> (Inl e, w1)
                | Inr transferStatus \<Rightarrow>
                    (case reportTransfer transferStatus w1 of
                       (Inl e, w2) \<Rightarrow> (Inl e, w2)
                     | (Inr u, w2) \<Rightarrow> (Inr (PInt (status response)), w2))))"

text \<open>
  The top level (lines 166 to 181): the body of the \<^verbatim>\<open>try\<close>, then the handler,
  which prints the exception. Between the two status queries the script does nothing.
\<close>

definition try_body :: "config \<Rightarrow> string \<Rightarrow> world \<Rightarrow> unit res \<times> world" where
  "try_body cfg transferJson w =
     (case doPostTransfer cfg (transferRequestUrl cfg) transferJson
             (mqWebUserId cfg) (mqWebPassword cfg) w of
        (Inl e, w1) \<Rightarrow> (Inl e, w1)
      | (Inr postResponse, w1) \<Rightarrow>
          (case postResponse of
             PStr loc \<Rightarrow>
               (case doGetTransferStatus cfg (loc @ ''?attributes=*'')
                       (mqWebUserId cfg) (mqWebPassword cfg) w1 of
                  (Inl e, w2) \<Rightarrow> (Inl e, w2)
                | (Inr getStatus, w2) \<Rightarrow>
                    if getStatus = PInt 404 then
                      (case doGetTransferStatus cfg (loc @ ''?attributes=*'')
                              (mqWebUserId cfg) (mqWebPassword cfg) w2 of
                         (Inl e, w3) \<Rightarrow> (Inl e, w3)
                       | (Inr r, w3) \<Rightarrow> (Inr (), w3))
                    else (Inr (), w2))
           | _ \<Rightarrow> (Inr (), w1)))"

definition script :: "config \<Rightarrow> world \<Rightarrow> world" where
  "script cfg w =
     (case try_body cfg (buildTransferRequest cfg) w of
        (Inl e, w1) \<Rightarrow> print_exc e w1
      | (Inr u, w1) \<Rightarrow> w1)"

text \<open>A run of the script against a server, from nothing sent and nothing printed.\<close>

definition start :: "(nat \<Rightarrow> request \<Rightarrow> reply) \<Rightarrow> world" where
  "start server = \<lparr>transport = server, sent = [], out = []\<rparr>"

definition run :: "config \<Rightarrow> (nat \<Rightarrow> request \<Rightarrow> reply) \<Rightarrow> world" where
  "run cfg server = script cfg (start server)"

text \<open>
  Shorthands for the calls of the top level: the submission of line 171, the request
  it sends, and the request of the status queries of lines 174 and 178.
\<close>

abbreviation submit :: "config \<Rightarrow> world \<Rightarrow> pyval res \<times> world" where
  "submit cfg w \<equiv>
     doPostTransfer cfg (transferRequestUrl cfg) (buildTransferRequest cfg)
       (mqWebUserId cfg) (mqWebPassword cfg) w"

abbreviation post_request :: "config \<Rightarrow> request" where
  "post_request cfg \<equiv>
     http_request cfg ''POST'' (transferRequestUrl cfg) (buildTransferRequest cfg)
       (mqWebUserId cfg) (mqWebPassword cfg)"

abbreviation status_request :: "config \<Rightarrow> string \<Rightarrow> request" where
  "status_request cfg loc \<equiv>
     http_request cfg ''GET'' (loc @ ''?attributes=*'') [] (mqWebUserId cfg) (mqWebPassword cfg)"

section \<open>Servers and responses for concrete runs\<close>

text \<open>
  A scripted server answers the \<open>n\<close>-th request with the \<open>n\<close>-th response of a list and
  refuses the connection afterwards.
\<close>

definition answers :: "response list \<Rightarrow> nat \<Rightarrow> request \<Rightarrow> reply" where
  "answers rs n req = (if n < length rs then Responds (rs ! n) else SendFails OSError)"

text \<open>A response with a status and no JSON body; one with a location header; a 200 with a body.\<close>

definition bare :: "int \<Rightarrow> response" where
  "bare code = \<lparr>status = code, location = None, content = Inl JSONDecodeError\<rparr>"

definition accepted :: "string \<Rightarrow> response" where
  "accepted L = \<lparr>status = 202, location = Some L, content = Inl JSONDecodeError\<rparr>"

definition ok_with :: "pyval \<Rightarrow> response" where
  "ok_with doc = \<lparr>status = 200, location = None, content = Inr doc\<rparr>"

text \<open>The script's configuration with every endpoint identifier and item name empty.\<close>

definition blank_config :: config where
  "blank_config =
     script_config\<lparr>sourceAgentName := [], destinationAgentName := [],
                   sourceQMName := [], destinationQMName := [],
                   sourceItemName := [], destinationItemName := []\<rparr>"

text \<open>A status document: one transfer with an id, a state and items.\<close>

definition status_doc :: "string \<Rightarrow> string \<Rightarrow> pyval list \<Rightarrow> pyval" where
  "status_doc tid st items =
     PDict [(''transfer'',
       PList [PDict [(''id'', PStr tid),
                     (''status'', PDict [(''state'', PStr st)]),
                     (''transferSet'', PDict [(''item'', PList items)])]])]"

text \<open>An item with a state and a description, and one with a state only.\<close>

definition status_item :: "string \<Rightarrow> string \<Rightarrow> pyval" where
  "status_item st d = PDict [(''status'', PDict [(''state'', PStr st), (''description'', PStr d)])]"

definition status_only :: "string \<Rightarrow> pyval" where
  "status_only st = PDict [(''status'', PDict [(''state'', PStr st)])]"

section \<open>Basic facts about the world\<close>

lemma sent_print [simp]: "sent (print s w) = sent w"
  by (simp add: print_def)

lemma out_print [simp]: "out (print s w) = out w @ [Line s]"
  by (simp add: print_def)

lemma transport_print [simp]: "transport (print s w) = transport w"
  by (simp add: print_def)

lemma sent_print_exc [simp]: "sent (print_exc e w) = sent w"
  by (simp add: print_exc_def)

lemma out_print_exc [simp]: "out (print_exc e w) = out w @ [ExcText e]"
  by (simp add: print_exc_def)

lemma sent_send [simp]: "sent (send req w) = sent w @ [req]"
  by (simp add: send_def)

lemma out_send [simp]: "out (send req w) = out w"
  by (simp add: send_def)

lemma transport_send [simp]: "transport (send req w) = transport w"
  by (simp add: send_def)

lemma sent_start [simp]: "sent (start server) = []"
  by (simp add: start_def)

lemma out_start [simp]: "out (start server) = []"
  by (simp add: start_def)

lemma transport_start [simp]: "transport (start server) = server"
  by (simp add: start_def)

lemma req_method_http_request [simp]: "req_method (http_request cfg meth url body u p) = meth"
  by (simp add: http_request_def)

section \<open>What each call does, case by case\<close>

text \<open>The POST is answered 202 and carries a location header.\<close>

lemma doPost_accepted:
  assumes "answer (http_request cfg ''POST'' url body u p) w = Responds r"
    and "status r = 202" and "location r = Some L"
  shows "doPostTransfer cfg url body u p w =
           (Inr (PStr L),
            print (''Transfer requested accepted. Status URL '' @ L)
              (print ''Posted transfer request successfully''
                (send (http_request cfg ''POST'' url body u p) w)))"
  using assms by (simp add: doPostTransfer_def getheader_location_def)

text \<open>The POST is answered 202 without a location header: \<^verbatim>\<open>str + None\<close> raises.\<close>

lemma doPost_no_location:
  assumes "answer (http_request cfg ''POST'' url body u p) w = Responds r"
    and "status r = 202" and "location r = None"
  shows "doPostTransfer cfg url body u p w =
           (Inl TypeError,
            print ''Posted transfer request successfully''
              (send (http_request cfg ''POST'' url body u p) w))"
  using assms by (simp add: doPostTransfer_def getheader_location_def)

text \<open>The POST is answered with any other status.\<close>

lemma doPost_rejected:
  assumes "answer (http_request cfg ''POST'' url body u p) w = Responds r"
    and "status r \<noteq> 202"
  shows "doPostTransfer cfg url body u p w =
           (Inr (PInt (status r)),
            print (''An error occurred while posting transfer request. HTTP response code: ''
                   @ str_int (status r))
              (print ''Posted transfer request successfully''
                (send (http_request cfg ''POST'' url body u p) w)))"
  using assms by (simp add: doPostTransfer_def)

text \<open>The POST is not answered.\<close>

lemma doPost_unanswered:
  assumes "\<forall>r. answer (http_request cfg ''POST'' url body u p) w \<noteq> Responds r"
  shows "\<exists>e. fst (doPostTransfer cfg url body u p w) = Inl e"
  using assms
  by (cases "answer (http_request cfg ''POST'' url body u p) w")
     (simp_all add: doPostTransfer_def)

text \<open>Whatever happens, \<open>doPostTransfer\<close> sends exactly its one request.\<close>

lemma sent_doPost:
  "sent (snd (doPostTransfer cfg url body u p w)) = sent w @ [http_request cfg ''POST'' url body u p]"
  by (cases "answer (http_request cfg ''POST'' url body u p) w")
     (simp_all add: doPostTransfer_def Let_def split: sum.splits)

text \<open>
  The GET is answered with a status other than 200: the message of line 147 adds an
  integer to a string, which raises before anything is printed or returned.
\<close>

lemma doGet_not_ok:
  assumes "answer (http_request cfg ''GET'' url [] u p) w = Responds r"
    and "status r \<noteq> 200"
  shows "doGetTransferStatus cfg url u p w =
           (Inl TypeError, send (http_request cfg ''GET'' url [] u p) w)"
  using assms by (simp add: doGetTransferStatus_def)

lemma sent_reportItems: "sent (snd (reportItems items w)) = sent w"
  by (induction items arbitrary: w) (simp_all split: sum.splits)

lemma sent_reportTransfer: "sent (snd (reportTransfer doc w)) = sent w"
  by (simp add: reportTransfer_def sent_reportItems split: sum.splits)

lemma sent_reportTransferD: "reportTransfer doc w = (x, w') \<Longrightarrow> sent w' = sent w"
  using sent_reportTransfer [of doc w] by simp

text \<open>Whatever happens, \<open>doGetTransferStatus\<close> sends exactly its one request.\<close>

lemma sent_doGet:
  "sent (snd (doGetTransferStatus cfg url u p w)) = sent w @ [http_request cfg ''GET'' url [] u p]"
  by (cases "answer (http_request cfg ''GET'' url [] u p) w")
     (auto simp: doGetTransferStatus_def Let_def dest: sent_reportTransferD
           split: sum.splits prod.splits)

text \<open>The only value \<open>doGetTransferStatus\<close> ever returns is the integer 200.\<close>

lemma doGet_returns_ok:
  assumes "fst (doGetTransferStatus cfg url u p w) = Inr v"
  shows "v = PInt 200"
  using assms
  by (cases "answer (http_request cfg ''GET'' url [] u p) w")
     (auto simp: doGetTransferStatus_def Let_def split: if_splits sum.splits prod.splits)

lemma answer_start [simp]: "answer req (start server) = server 0 req"
  by (simp add: answer_def)

lemma answer_print [simp]: "answer req (print s w) = answer req w"
  by (simp add: answer_def)

lemma answer_send [simp]: "answer req (send req' w) = transport w (Suc (length (sent w))) req"
  by (simp add: answer_def)

section \<open>The claims\<close>

text \<open>
  C1. The claim: for every GET status response whose HTTP status is not 200 (notably
  404), \<open>doGetTransferStatus\<close> returns that raw status code, without parsing a body
  and without raising an error. The script does not: on every such response line 147
  builds its message as a string plus the integer status, which raises TypeError, so
  the \<^verbatim>\<open>return response.status\<close> of line 148 is never reached.
\<close>

theorem C1_status_not_ok_raises:
  assumes "answer (http_request cfg ''GET'' url [] userId password) w = Responds r"
    and "status r \<noteq> 200"
  shows "fst (doGetTransferStatus cfg url userId password w) = Inl TypeError"
  using assms by (simp add: doGet_not_ok)

theorem C1_status_not_ok_raises_witness:
  "answer (http_request script_config ''GET'' ''/t/1?attributes=*'' [] ''mftuser'' ''mftpassw0rd'')
      (start (answers [bare 404])) = Responds (bare 404)
   \<and> status (bare 404) \<noteq> 200
   \<and> fst (doGetTransferStatus script_config ''/t/1?attributes=*'' ''mftuser'' ''mftpassw0rd''
        (start (answers [bare 404]))) = Inl TypeError"
proof -
  have a: "answer (http_request script_config ''GET'' ''/t/1?attributes=*'' [] ''mftuser'' ''mftpassw0rd'')
      (start (answers [bare 404])) = Responds (bare 404)"
    by (simp add: answers_def)
  have s: "status (bare 404) \<noteq> 200"
    by (simp add: bare_def)
  from C1_status_not_ok_raises [OF a s] a s show ?thesis by simp
qed

text \<open>
  C3. For every job-creation response with status 202 that carries a location header
  \<open>L\<close>, \<open>doPostTransfer\<close> returns \<open>L\<close>, as a string.
\<close>

theorem C3_accepted_returns_location:
  assumes "answer (http_request cfg ''POST'' url body userId password) w = Responds r"
    and "status r = 202"
    and "location r = Some L"
  shows "fst (doPostTransfer cfg url body userId password w) = Inr (PStr L)"
  using assms by (simp add: doPost_accepted)

theorem C3_accepted_returns_location_witness:
  "answer (http_request script_config ''POST'' ''/transfer'' ''{}'' ''mftuser'' ''mftpassw0rd'')
      (start (answers [accepted ''/transfer/414d51''])) = Responds (accepted ''/transfer/414d51'')
   \<and> status (accepted ''/transfer/414d51'') = 202
   \<and> location (accepted ''/transfer/414d51'') = Some ''/transfer/414d51''
   \<and> fst (doPostTransfer script_config ''/transfer'' ''{}'' ''mftuser'' ''mftpassw0rd''
        (start (answers [accepted ''/transfer/414d51'']))) = Inr (PStr ''/transfer/414d51'')"
proof -
  have a: "answer (http_request script_config ''POST'' ''/transfer'' ''{}'' ''mftuser'' ''mftpassw0rd'')
      (start (answers [accepted ''/transfer/414d51''])) = Responds (accepted ''/transfer/414d51'')"
    by (simp add: answers_def)
  have s: "status (accepted ''/transfer/414d51'') = 202"
    and l: "location (accepted ''/transfer/414d51'') = Some ''/transfer/414d51''"
    by (simp_all add: accepted_def)
  from C3_accepted_returns_location [OF a s l] a s l show ?thesis by simp
qed

text \<open>
  C5. For every job-creation response with a status other than 202, \<open>doPostTransfer\<close>
  returns exactly that status code, as an integer; it has sent one request, the POST;
  and the whole run sends nothing but that POST: no retry and no status query.
\<close>

theorem C5_rejected_submission:
  assumes "server 0 (post_request cfg) = Responds r"
    and "status r \<noteq> 202"
  shows "fst (submit cfg (start server)) = Inr (PInt (status r))
       \<and> sent (snd (submit cfg (start server))) = [post_request cfg]
       \<and> sent (run cfg server) = [post_request cfg]"
proof -
  have a: "answer (post_request cfg) (start server) = Responds r"
    using assms(1) by simp
  note post = doPost_rejected [OF a assms(2)]
  show ?thesis
    by (simp add: post run_def script_def try_body_def)
qed

theorem C5_rejected_submission_witness:
  "sent (run script_config (answers [bare 401]))
     = [http_request script_config ''POST'' ''/ibmmq/rest/v2/admin/mft/transfer''
          (buildTransferRequest script_config) ''mftuser'' ''mftpassw0rd'']
   \<and> fst (doPostTransfer script_config ''/ibmmq/rest/v2/admin/mft/transfer''
          (buildTransferRequest script_config) ''mftuser'' ''mftpassw0rd''
          (start (answers [bare 401]))) = Inr (PInt 401)"
proof -
  have a: "answers [bare 401] 0 (http_request script_config ''POST''
             (transferRequestUrl script_config) (buildTransferRequest script_config)
             (mqWebUserId script_config) (mqWebPassword script_config)) = Responds (bare 401)"
    by (simp add: answers_def)
  have s: "status (bare 401) \<noteq> 202"
    by (simp add: bare_def)
  from C5_rejected_submission
         [where server = "answers [bare 401]" and cfg = script_config and r = "bare 401", OF a s]
  show ?thesis
    by (simp add: script_config_def bare_def)
qed

text \<open>
  The requests of a whole run, for every configuration and every server: the POST, and
  one GET exactly when the submission returned a string. No run sends a second GET:
  the first one either raises or returns 200, never 404.
\<close>

lemma sent_run:
  "sent (run cfg server) =
     post_request cfg #
       (case fst (submit cfg (start server)) of
          Inr (PStr loc) \<Rightarrow> [status_request cfg loc]
        | _ \<Rightarrow> [])"
proof (cases "submit cfg (start server)")
  case (Pair r w1)
  then have w1: "sent w1 = [post_request cfg]"
    using sent_doPost [of cfg "transferRequestUrl cfg" "buildTransferRequest cfg"
        "mqWebUserId cfg" "mqWebPassword cfg" "start server"]
    by simp
  show ?thesis
  proof (cases r)
    case (Inl e)
    with Pair w1 show ?thesis
      by (simp add: run_def script_def try_body_def)
  next
    case (Inr v)
    show ?thesis
    proof (cases v)
      case (PStr loc)
      obtain g w2 where get:
        "doGetTransferStatus cfg (loc @ ''?attributes=*'') (mqWebUserId cfg) (mqWebPassword cfg) w1
           = (g, w2)"
        by (cases "doGetTransferStatus cfg (loc @ ''?attributes=*'') (mqWebUserId cfg)
                     (mqWebPassword cfg) w1")
      then have w2: "sent w2 = [post_request cfg, status_request cfg loc]"
        using sent_doGet [of cfg "loc @ ''?attributes=*''" "mqWebUserId cfg" "mqWebPassword cfg" w1]
          w1 by simp
      have g: "g = Inr x \<Longrightarrow> x \<noteq> PInt 404" for x
        using doGet_returns_ok [of cfg "loc @ ''?attributes=*''" "mqWebUserId cfg"
            "mqWebPassword cfg" w1 x] get by auto
      from Pair Inr PStr get w2 g show ?thesis
        by (cases g) (simp_all add: run_def script_def try_body_def)
    qed (use Pair Inr w1 in \<open>simp_all add: run_def script_def try_body_def\<close>)
  qed
qed

lemma run_at_most_one_get:
  "length (filter (\<lambda>req. req_method req = ''GET'') (sent (run cfg server))) \<le> 1"
  by (simp add: sent_run split: sum.splits pyval.splits)

text \<open>
  C2. The claim: when the first status query returns 404, the workflow waits five
  seconds and issues exactly one more GET, and a second 404 ends it after exactly two
  GET calls. The script does not: the first 404 makes \<open>doGetTransferStatus\<close> raise
  (line 147), the handler of line 179 prints the exception, and the run is over after
  one POST and one GET. The comparison of line 177 and the second query of line 178
  are never reached, and the script contains no wait at all.
\<close>

theorem C2_not_found_ends_after_one_get:
  assumes "server 0 (post_request cfg) = Responds r0"
    and "status r0 = 202"
    and "location r0 = Some L"
    and "server 1 (status_request cfg L) = Responds r1"
    and "status r1 = 404"
  shows "sent (run cfg server) = [post_request cfg, status_request cfg L]
       \<and> out (run cfg server) =
           [Line ''Posted transfer request successfully'',
            Line (''Transfer requested accepted. Status URL '' @ L),
            ExcText TypeError]"
proof -
  define w1 where "w1 =
    print (''Transfer requested accepted. Status URL '' @ L)
      (print ''Posted transfer request successfully'' (send (post_request cfg) (start server)))"
  have a: "answer (post_request cfg) (start server) = Responds r0"
    using assms(1) by simp
  have post: "submit cfg (start server) = (Inr (PStr L), w1)"
    unfolding w1_def by (rule doPost_accepted [OF a assms(2,3)])
  have b: "answer (status_request cfg L) w1 = Responds r1"
    using assms(4) by (simp add: w1_def)
  have c: "status r1 \<noteq> 200"
    using assms(5) by simp
  have get: "doGetTransferStatus cfg (L @ ''?attributes=*'') (mqWebUserId cfg) (mqWebPassword cfg) w1
               = (Inl TypeError, send (status_request cfg L) w1)"
    by (rule doGet_not_ok [OF b c])
  have "run cfg server = print_exc TypeError (send (status_request cfg L) w1)"
    by (simp add: run_def script_def try_body_def post get)
  then show ?thesis
    by (simp add: w1_def)
qed

theorem C2_not_found_ends_after_one_get_witness:
  "map req_method (sent (run script_config (answers [accepted ''/t/1'', bare 404, bare 404])))
     = [''POST'', ''GET'']
   \<and> out (run script_config (answers [accepted ''/t/1'', bare 404, bare 404])) =
           [Line ''Posted transfer request successfully'',
            Line ''Transfer requested accepted. Status URL /t/1'',
            ExcText TypeError]"
proof -
  have a: "answers [accepted ''/t/1'', bare 404, bare 404] 0 (post_request script_config)
             = Responds (accepted ''/t/1'')"
    by (simp add: answers_def)
  have b: "answers [accepted ''/t/1'', bare 404, bare 404] 1 (status_request script_config ''/t/1'')
             = Responds (bare 404)"
    by (simp add: answers_def)
  have s: "status (accepted ''/t/1'') = 202" "location (accepted ''/t/1'') = Some ''/t/1''"
    "status (bare 404) = 404"
    by (simp_all add: accepted_def bare_def)
  from C2_not_found_ends_after_one_get
         [where server = "answers [accepted ''/t/1'', bare 404, bare 404]" and cfg = script_config
            and ?r0.0 = "accepted ''/t/1''" and ?r1.0 = "bare 404" and L = "''/t/1''",
          OF a s(1,2) b s(3)]
  show ?thesis
    by simp
qed

text \<open>
  C4. The claim: a 202 response without a location header makes the submission fail
  with a distinguishable ProtocolError. The script has no such error: the message of
  line 131 adds \<^verbatim>\<open>None\<close> to a string, which raises TypeError, the exception that a
  status response other than 200 raises as well (line 147).
\<close>

theorem C4_missing_location_counterexample:
  "fst (doPostTransfer script_config ''/transfer'' ''{}'' ''mftuser'' ''mftpassw0rd''
          (start (answers [bare 202]))) = Inl TypeError
   \<and> fst (doPostTransfer script_config ''/transfer'' ''{}'' ''mftuser'' ''mftpassw0rd''
          (start (answers [bare 202])))
     = fst (doGetTransferStatus script_config ''/t/1?attributes=*'' ''mftuser'' ''mftpassw0rd''
          (start (answers [bare 404])))"
  by (simp add: doPostTransfer_def doGetTransferStatus_def answers_def bare_def
        getheader_location_def)

text \<open>
  C4, as amended: for every 202 response without a location header, \<open>doPostTransfer\<close>
  returns nothing and raises TypeError; the run is not treated as a success: it sends
  no status query and prints, after the first message, only the exception.
\<close>

theorem C4_missing_location_raises:
  assumes "server 0 (post_request cfg) = Responds r"
    and "status r = 202"
    and "location r = None"
  shows "fst (submit cfg (start server)) = Inl TypeError
       \<and> sent (run cfg server) = [post_request cfg]
       \<and> out (run cfg server) =
           [Line ''Posted transfer request successfully'', ExcText TypeError]"
proof -
  have a: "answer (post_request cfg) (start server) = Responds r"
    using assms(1) by simp
  note post = doPost_no_location [OF a assms(2,3)]
  show ?thesis
    by (simp add: post run_def script_def try_body_def)
qed

theorem C4_missing_location_raises_witness:
  "fst (submit script_config (start (answers [bare 202]))) = Inl TypeError
   \<and> map req_method (sent (run script_config (answers [bare 202]))) = [''POST'']
   \<and> out (run script_config (answers [bare 202])) =
           [Line ''Posted transfer request successfully'', ExcText TypeError]"
proof -
  have a: "answers [bare 202] 0 (post_request script_config) = Responds (bare 202)"
    by (simp add: answers_def)
  have s: "status (bare 202) = 202" "location (bare 202) = None"
    by (simp_all add: bare_def)
  from C4_missing_location_raises
         [where server = "answers [bare 202]" and cfg = script_config and r = "bare 202", OF a s]
  show ?thesis
    by simp
qed

text \<open>
  C10. The claim: \<open>doPostTransfer\<close> returns a string exactly when the response status
  is 202 and an integer otherwise. It does not: a 202 response without a location
  header makes it raise, so it returns neither.
\<close>

theorem C10_return_type_counterexample:
  "status (bare 202) = 202
   \<and> fst (submit script_config (start (answers [bare 202]))) = Inl TypeError"
  by (simp add: doPostTransfer_def answers_def bare_def getheader_location_def)

text \<open>
  C10, as amended: for every answered POST, \<open>doPostTransfer\<close> returns a string exactly
  when the status is 202 and the response carries a location header, returns an
  integer exactly when the status is not 202, and raises TypeError exactly when the
  status is 202 and the header is missing; and the run sends a GET if and only if the
  returned value is a string.
\<close>

theorem C10_return_type_decides:
  assumes "server 0 (post_request cfg) = Responds r"
  shows "((\<exists>s. fst (submit cfg (start server)) = Inr (PStr s))
            \<longleftrightarrow> status r = 202 \<and> location r \<noteq> None)
       \<and> ((\<exists>i. fst (submit cfg (start server)) = Inr (PInt i)) \<longleftrightarrow> status r \<noteq> 202)
       \<and> (fst (submit cfg (start server)) = Inl TypeError
            \<longleftrightarrow> status r = 202 \<and> location r = None)
       \<and> ((\<exists>req \<in> set (sent (run cfg server)). req_method req = ''GET'')
            \<longleftrightarrow> (\<exists>s. fst (submit cfg (start server)) = Inr (PStr s)))"
proof -
  have a: "answer (post_request cfg) (start server) = Responds r"
    using assms by simp
  have gets: "(\<exists>req \<in> set (sent (run cfg server)). req_method req = ''GET'')
            \<longleftrightarrow> (\<exists>s. fst (submit cfg (start server)) = Inr (PStr s))"
  proof (cases "fst (submit cfg (start server))")
    case (Inl e)
    then show ?thesis by (simp add: sent_run)
  next
    case (Inr v)
    then show ?thesis by (cases v) (simp_all add: sent_run)
  qed
  consider (rejected) "status r \<noteq> 202"
    | (accepted) L where "status r = 202" "location r = Some L"
    | (missing) "status r = 202" "location r = None"
    by (cases "location r") auto
  then have "((\<exists>s. fst (submit cfg (start server)) = Inr (PStr s))
            \<longleftrightarrow> status r = 202 \<and> location r \<noteq> None)
       \<and> ((\<exists>i. fst (submit cfg (start server)) = Inr (PInt i)) \<longleftrightarrow> status r \<noteq> 202)
       \<and> (fst (submit cfg (start server)) = Inl TypeError
            \<longleftrightarrow> status r = 202 \<and> location r = None)"
  proof cases
    case rejected
    then show ?thesis by (simp add: doPost_rejected [OF a])
  next
    case accepted
    then show ?thesis by (simp add: doPost_accepted [OF a])
  next
    case missing
    then show ?thesis by (simp add: doPost_no_location [OF a])
  qed
  with gets show ?thesis by blast
qed

theorem C10_return_type_decides_witness:
  "fst (submit script_config (start (answers [accepted ''/t/1'', bare 404])))
     = Inr (PStr ''/t/1'')
   \<and> (\<exists>req \<in> set (sent (run script_config (answers [accepted ''/t/1'', bare 404]))).
         req_method req = ''GET'')"
proof -
  have a: "answers [accepted ''/t/1'', bare 404] 0 (post_request script_config)
             = Responds (accepted ''/t/1'')"
    by (simp add: answers_def)
  have s: "status (accepted ''/t/1'') = 202" "location (accepted ''/t/1'') = Some ''/t/1''"
    by (simp_all add: accepted_def)
  have p: "fst (submit script_config (start (answers [accepted ''/t/1'', bare 404])))
             = Inr (PStr ''/t/1'')"
    using a s by (simp add: doPost_accepted)
  from C10_return_type_decides
         [where server = "answers [accepted ''/t/1'', bare 404]" and cfg = script_config
            and r = "accepted ''/t/1''", OF a] p
  show ?thesis
    by blast
qed

section \<open>The text functions on the script's own strings\<close>

lemma json_keys:
  "json_string ''sourceAgent'' = ''\"sourceAgent\"''"
  "json_string ''destinationAgent'' = ''\"destinationAgent\"''"
  "json_string ''transferSet'' = ''\"transferSet\"''"
  "json_string ''qmgrName'' = ''\"qmgrName\"''"
  "json_string ''name'' = ''\"name\"''"
  "json_string ''item'' = ''\"item\"''"
  "json_string ''source'' = ''\"source\"''"
  "json_string ''destination'' = ''\"destination\"''"
  "json_string ''type'' = ''\"type\"''"
  by (simp_all add: json_string_def json_escape_char_def)

lemma json_string_empty: "json_string [] = ''\"\"''"
  by (simp add: json_string_def)

lemma length_b64_alphabet: "length b64_alphabet = 64"
  by (simp add: b64_alphabet_def)

lemma b64_char_in: "b64_char n \<in> set b64_alphabet"
  unfolding b64_char_def by (rule nth_mem) (simp add: length_b64_alphabet)

lemma b64encode_chars: "set (b64encode bs) \<subseteq> insert CHR ''='' (set b64_alphabet)"
  by (induction bs rule: b64encode.induct) (auto simp: b64_char_in)

text \<open>A base64 character is printed as itself by \<^verbatim>\<open>repr\<close>, and is not a quote.\<close>

lemma b64_plain_all:
  "list_all (\<lambda>c. bytes_escape SQ c = [c] \<and> c \<noteq> SQ) (CHR ''='' # b64_alphabet)"
  by code_simp

lemma b64_plain:
  assumes "c \<in> insert CHR ''='' (set b64_alphabet)"
  shows "bytes_escape SQ c = [c] \<and> c \<noteq> SQ"
  using b64_plain_all assms unfolding list_all_iff by auto

lemma str_bytes_plain:
  assumes "\<forall>c \<in> set bs. bytes_escape SQ c = [c] \<and> c \<noteq> SQ"
  shows "str_bytes bs = CHR ''b'' # SQ # bs @ [SQ]"
proof -
  from assms have q: "bytes_quote bs = SQ"
    by (auto simp: bytes_quote_def)
  from assms have "concat (map (bytes_escape SQ) bs) = bs"
    by (induction bs) simp_all
  with q show ?thesis
    by (simp add: str_bytes_def)
qed

lemma str_bytes_b64encode: "str_bytes (b64encode bs) = CHR ''b'' # SQ # b64encode bs @ [SQ]"
proof (rule str_bytes_plain, rule ballI)
  fix c
  assume "c \<in> set (b64encode bs)"
  with b64encode_chars [of bs] have "c \<in> insert CHR ''='' (set b64_alphabet)"
    by (rule subsetD)
  then show "bytes_escape SQ c = [c] \<and> c \<noteq> SQ"
    by (rule b64_plain)
qed

text \<open>
  C8. The claim: the Authorization header is \<^verbatim>\<open>Basic\<close>, a space, and the base64
  encoding of \<^verbatim>\<open>userId:password\<close>. The other two headers are as claimed, but the
  script builds this one from \<^verbatim>\<open>str(encodedUidPwd)\<close>, the text of a bytes object
  (line 116): for every userId and password the base64 encoding is wrapped in
  \<^verbatim>\<open>b'\<close> and \<^verbatim>\<open>'\<close>, and the value is never the one claimed.
\<close>

theorem C8_authorization_is_bytes_text:
  "buildHTTPHeaders userId password =
     [(''Content-type'', ''application/json''),
      (''ibm-mq-rest-csrf-token'', []),
      (''Authorization'',
         ''Basic b'' @ [SQ] @ b64encode (utf8 (userId @ '':'' @ password)) @ [SQ])]
   \<and> map_of (buildHTTPHeaders userId password) ''Authorization''
       \<noteq> Some (''Basic '' @ b64encode (utf8 (userId @ '':'' @ password)))"
  by (simp add: buildHTTPHeaders_def str_bytes_b64encode)

theorem C8_authorization_is_bytes_text_witness:
  "map_of (buildHTTPHeaders ''mftuser'' ''mftpassw0rd'') ''Authorization''
     = Some (''Basic b'bWZ0dXNlcjptZnRwYXNzdzByZA=='' @ [SQ])"
proof -
  have e: "b64encode (utf8 (''mftuser'' @ '':'' @ ''mftpassw0rd'')) = ''bWZ0dXNlcjptZnRwYXNzdzByZA==''"
    by code_simp
  from C8_authorization_is_bytes_text [of "''mftuser''" "''mftpassw0rd''"] show ?thesis
    unfolding e by simp
qed

text \<open>
  C9. For every configuration, \<open>buildTransferRequest\<close> produces the serialized
  descriptor written out below: an object with \<^verbatim>\<open>sourceAgent\<close> and
  \<^verbatim>\<open>destinationAgent\<close> (queue manager and name) and a \<^verbatim>\<open>transferSet\<close> whose
  \<^verbatim>\<open>item\<close> array holds one object per configured item pair, with \<^verbatim>\<open>source\<close> and
  \<^verbatim>\<open>destination\<close> (name and type). The script configures exactly one pair, and the
  array has exactly one element. The output is a function of the configuration.
\<close>

theorem C9_descriptor_shape:
  "buildTransferRequest cfg =
     ''{\"sourceAgent\": {\"qmgrName\": '' @ json_string (sourceQMName cfg)
       @ '', \"name\": '' @ json_string (sourceAgentName cfg)
       @ ''}, \"destinationAgent\": {\"qmgrName\": '' @ json_string (destinationQMName cfg)
       @ '', \"name\": '' @ json_string (destinationAgentName cfg)
       @ ''}, \"transferSet\": {\"item\": [{\"source\": {\"name\": ''
       @ json_string (sourceItemName cfg)
       @ '', \"type\": '' @ json_string (sourceItemType cfg)
       @ ''}, \"destination\": {\"name\": '' @ json_string (destinationItemName cfg)
       @ '', \"type\": '' @ json_string (destinationItemType cfg) @ ''}}]}}''
   \<and> buildTransferRequest cfg = dumps (transferRequest cfg)
   \<and> getitem (transferRequest cfg) ''sourceAgent''
       = Inr (PDict [(''qmgrName'', PStr (sourceQMName cfg)), (''name'', PStr (sourceAgentName cfg))])
   \<and> getitem (transferRequest cfg) ''destinationAgent''
       = Inr (PDict [(''qmgrName'', PStr (destinationQMName cfg)),
                     (''name'', PStr (destinationAgentName cfg))])
   \<and> bindE (getitem (transferRequest cfg) ''transferSet'') (\<lambda>s. getitem s ''item'')
       = Inr (PList
           [PDict [(''source'', PDict [(''name'', PStr (sourceItemName cfg)),
                                       (''type'', PStr (sourceItemType cfg))]),
                   (''destination'', PDict [(''name'', PStr (destinationItemName cfg)),
                                            (''type'', PStr (destinationItemType cfg))])]])"
  by (simp add: buildTransferRequest_def transferRequest_def json_keys bindE_def)

text \<open>
  C7. The claim: a configuration with an empty item sequence, or with an empty endpoint
  identifier or item name, makes the builder fail with InvalidDescriptor before any
  network call. The script validates nothing: with every identifier and item name
  empty it serializes the empty strings and posts the result.
\<close>

theorem C7_no_validation_counterexample:
  "buildTransferRequest blank_config =
     ''{\"sourceAgent\": {\"qmgrName\": \"\", \"name\": \"\"}, \"destinationAgent\": {\"qmgrName\": \"\", \"name\": \"\"}, \"transferSet\": {\"item\": [{\"source\": {\"name\": \"\", \"type\": \"file\"}, \"destination\": {\"name\": \"\", \"type\": \"directory\"}}]}}''
   \<and> map (\<lambda>req. (req_method req, req_body req)) (sent (run blank_config (answers [bare 400])))
       = [(''POST'', buildTransferRequest blank_config)]"
proof -
  have "buildTransferRequest blank_config =
     ''{\"sourceAgent\": {\"qmgrName\": \"\", \"name\": \"\"}, \"destinationAgent\": {\"qmgrName\": \"\", \"name\": \"\"}, \"transferSet\": {\"item\": [{\"source\": {\"name\": \"\", \"type\": \"file\"}, \"destination\": {\"name\": \"\", \"type\": \"directory\"}}]}}''"
    by code_simp
  moreover have "answer (post_request blank_config) (start (answers [bare 400])) = Responds (bare 400)"
    by (simp add: answers_def)
  then have "map (\<lambda>req. (req_method req, req_body req)) (sent (run blank_config (answers [bare 400])))
       = [(''POST'', buildTransferRequest blank_config)]"
    by (simp add: sent_run doPost_rejected bare_def http_request_def)
  ultimately show ?thesis by simp
qed

text \<open>
  C7, as amended: the builder checks nothing and cannot fail. For every configuration,
  empty identifiers and item names included, and every server, the first thing a run
  does is to send the POST whose body is the serialized descriptor. (An empty item
  sequence cannot be configured: the script always builds exactly one item.)
\<close>

theorem C7_every_configuration_is_posted:
  "sent (run cfg server) \<noteq> []
   \<and> hd (sent (run cfg server)) = post_request cfg
   \<and> req_method (hd (sent (run cfg server))) = ''POST''
   \<and> req_body (hd (sent (run cfg server))) = buildTransferRequest cfg"
  by (simp add: sent_run http_request_def)

text \<open>
  The loop of lines 159 to 161 on items of the expected shape. Each row pairs an item
  with the state \<open>st\<close> found under its \<^verbatim>\<open>status\<close> and, for a failed item, the string
  \<open>d\<close> found under \<^verbatim>\<open>description\<close> there. One line is printed per failed item, in
  order, with that item's own description, and nothing else.
\<close>

lemma reportItems_rows:
  assumes "\<forall>(item, st, d) \<in> set rows.
             \<exists>kvs skvs. item = PDict kvs \<and> map_of kvs ''status'' = Some (PDict skvs)
               \<and> map_of skvs ''state'' = Some st
               \<and> (st = PStr ''failed'' \<longrightarrow> map_of skvs ''description'' = Some (PStr d))"
  shows "reportItems (map fst rows) w =
           (Inr (),
            w\<lparr>out := out w @ map (\<lambda>(item, st, d). Line (''Error: '' @ d))
                               (filter (\<lambda>(item, st, d). st = PStr ''failed'') rows)\<rparr>)"
  using assms
proof (induction rows arbitrary: w)
  case Nil
  show ?case by simp
next
  case (Cons row rest)
  obtain item st d where row: "row = (item, st, d)"
    by (cases row)
  from Cons.prems row obtain kvs skvs where item: "item = PDict kvs"
    and status: "map_of kvs ''status'' = Some (PDict skvs)"
    and state: "map_of skvs ''state'' = Some st"
    and descr: "st = PStr ''failed'' \<Longrightarrow> map_of skvs ''description'' = Some (PStr d)"
    by auto
  have st: "item_state item = Inr st"
    using item status state by (simp add: item_state_def bindE_def)
  from Cons.prems have "\<forall>(item, st, d) \<in> set rest.
             \<exists>kvs skvs. item = PDict kvs \<and> map_of kvs ''status'' = Some (PDict skvs)
               \<and> map_of skvs ''state'' = Some st
               \<and> (st = PStr ''failed'' \<longrightarrow> map_of skvs ''description'' = Some (PStr d))"
    by simp
  note IH = Cons.IH [OF this]
  show ?case
  proof (cases "st = PStr ''failed''")
    case True
    with descr item status have "item_description item = Inr (PStr d)"
      by (simp add: item_description_def bindE_def)
    with st True row show ?thesis
      by (simp add: IH bindE_def print_def)
  next
    case False
    with st row show ?thesis
      by (simp add: IH)
  qed
qed

text \<open>
  C6. The claim: for every 200 status response whose overall state is \<^verbatim>\<open>failed\<close>
  and whose item array mixes failed and non-failed items, the status query surfaces
  the description of each failed item. It does not when a failed item carries no
  description: line 161 raises KeyError at that item, and the description of a failed
  item after it is never printed.
\<close>

theorem C6_missing_description_counterexample:
  "fst (doGetTransferStatus script_config ''/t/1?attributes=*'' ''mftuser'' ''mftpassw0rd''
         (start (answers [ok_with (status_doc ''414d51'' ''failed''
            [status_item ''completed'' ''copied'', status_only ''failed'',
             status_item ''failed'' ''disk full''])])))
     = Inl KeyError
   \<and> out (snd (doGetTransferStatus script_config ''/t/1?attributes=*'' ''mftuser'' ''mftpassw0rd''
         (start (answers [ok_with (status_doc ''414d51'' ''failed''
            [status_item ''completed'' ''copied'', status_only ''failed'',
             status_item ''failed'' ''disk full''])]))))
     = [Line ''Status of transfer request with Id 414d51 is failed'']"
  by (simp add: doGetTransferStatus_def reportTransfer_def first_transfer_def item_state_def
        item_description_def bindE_def answers_def ok_with_def status_doc_def status_item_def
        status_only_def)

text \<open>
  C6, as amended: for every 200 status response whose first transfer has a string id
  and the state \<^verbatim>\<open>failed\<close>, and whose \<^verbatim>\<open>transferSet.item\<close> array holds items that
  each have a state under \<^verbatim>\<open>status\<close>, the failed ones with a string description
  there: after the line that reports the state, the status query prints the
  description of exactly each item whose own state is \<^verbatim>\<open>failed\<close>, in order, and
  nothing from the other items; it returns 200. The body is given by its entries, and
  each row by the item, its state and its description.
\<close>

theorem C6_described_failed_items_surfaced:
  assumes "answer (http_request cfg ''GET'' url [] userId password) w = Responds r"
    and "status r = 200"
    and "content r = Inr (PDict doc)"
    and "map_of doc ''transfer'' = Some (PList (PDict t # others))"
    and "map_of t ''id'' = Some (PStr transferId)"
    and "map_of t ''status'' = Some (PDict tstatus)"
    and "map_of tstatus ''state'' = Some (PStr ''failed'')"
    and "map_of t ''transferSet'' = Some (PDict ts)"
    and "map_of ts ''item'' = Some (PList (map fst rows))"
    and "\<forall>(item, st, d) \<in> set rows.
           \<exists>kvs skvs. item = PDict kvs \<and> map_of kvs ''status'' = Some (PDict skvs)
             \<and> map_of skvs ''state'' = Some st
             \<and> (st = PStr ''failed'' \<longrightarrow> map_of skvs ''description'' = Some (PStr d))"
  shows "fst (doGetTransferStatus cfg url userId password w) = Inr (PInt 200)
       \<and> out (snd (doGetTransferStatus cfg url userId password w)) =
           out w
           @ Line (''Status of transfer request with Id '' @ transferId @ '' is failed'')
           # map (\<lambda>(item, st, d). Line (''Error: '' @ d))
               (filter (\<lambda>(item, st, d). st = PStr ''failed'') rows)"
proof -
  define w1 where "w1 = send (http_request cfg ''GET'' url [] userId password) w"
  define line where "line = ''Status of transfer request with Id '' @ transferId @ '' is failed''"
  have rt: "reportTransfer (PDict doc) w1 = reportItems (map fst rows) (print line w1)"
    using assms(4-9)
    by (simp add: reportTransfer_def first_transfer_def item_state_def bindE_def line_def)
  note ri = reportItems_rows [OF assms(10), of "print line w1"]
  have "doGetTransferStatus cfg url userId password w =
          (Inr (PInt 200),
           (print line w1)\<lparr>out := out (print line w1)
              @ map (\<lambda>(item, st, d). Line (''Error: '' @ d))
                  (filter (\<lambda>(item, st, d). st = PStr ''failed'') rows)\<rparr>)"
    using assms(1-3)
    by (simp add: doGetTransferStatus_def rt [unfolded w1_def] ri [unfolded w1_def] w1_def)
  then show ?thesis
    by (simp add: w1_def line_def)
qed

theorem C6_described_failed_items_surfaced_witness:
  "fst (doGetTransferStatus script_config ''/t/1?attributes=*'' ''mftuser'' ''mftpassw0rd''
         (start (answers [ok_with (status_doc ''414d51'' ''failed''
            [status_only ''completed'', status_item ''failed'' ''disk full''])])))
     = Inr (PInt 200)
   \<and> out (snd (doGetTransferStatus script_config ''/t/1?attributes=*'' ''mftuser'' ''mftpassw0rd''
         (start (answers [ok_with (status_doc ''414d51'' ''failed''
            [status_only ''completed'', status_item ''failed'' ''disk full''])]))))
     = [Line ''Status of transfer request with Id 414d51 is failed'', Line ''Error: disk full'']"
proof -
  define rows where
    "rows = [(status_only ''completed'', PStr ''completed'', ''''),
             (status_item ''failed'' ''disk full'', PStr ''failed'', ''disk full'')]"
  define t where
    "t = [(''id'', PStr ''414d51''), (''status'', PDict [(''state'', PStr ''failed'')]),
          (''transferSet'', PDict [(''item'', PList (map fst rows))])]"
  define doc where "doc = [(''transfer'', PList [PDict t])]"
  have items: "[status_only ''completed'', status_item ''failed'' ''disk full''] = map fst rows"
    by (simp add: rows_def)
  have doc: "status_doc ''414d51'' ''failed'' (map fst rows) = PDict doc"
    by (simp add: status_doc_def doc_def t_def)
  have a: "answer (http_request script_config ''GET'' ''/t/1?attributes=*'' [] ''mftuser'' ''mftpassw0rd'')
             (start (answers [ok_with (PDict doc)])) = Responds (ok_with (PDict doc))"
    by (simp add: answers_def)
  have r: "status (ok_with (PDict doc)) = 200" "content (ok_with (PDict doc)) = Inr (PDict doc)"
    by (simp_all add: ok_with_def)
  have d: "map_of doc ''transfer'' = Some (PList (PDict t # []))"
    by (simp add: doc_def)
  have t: "map_of t ''id'' = Some (PStr ''414d51'')"
    "map_of t ''status'' = Some (PDict [(''state'', PStr ''failed'')])"
    "map_of [(''state'', PStr ''failed'')] ''state'' = Some (PStr ''failed'')"
    "map_of t ''transferSet'' = Some (PDict [(''item'', PList (map fst rows))])"
    "map_of [(''item'', PList (map fst rows))] ''item'' = Some (PList (map fst rows))"
    by (simp_all add: t_def)
  have wf: "\<forall>(item, st, d) \<in> set rows.
           \<exists>kvs skvs. item = PDict kvs \<and> map_of kvs ''status'' = Some (PDict skvs)
             \<and> map_of skvs ''state'' = Some st
             \<and> (st = PStr ''failed'' \<longrightarrow> map_of skvs ''description'' = Some (PStr d))"
    by (simp add: rows_def status_item_def status_only_def)
  have sel: "map (\<lambda>(item, st, d). Line (''Error: '' @ d))
               (filter (\<lambda>(item, st, d). st = PStr ''failed'') rows)
             = [Line ''Error: disk full'']"
    by (simp add: rows_def)
  from C6_described_failed_items_surfaced [OF a r d t wf] sel show ?thesis
    unfolding items doc by simp
qed

end
